theory Spec2Isabelle
  imports Main "HOL-Library.Char_ord" "HOL-Library.List_Lexorder" "HOL-Library.Signed_Division"
begin

section \<open>Python values used by main.py\<close>

text \<open>
  Strings are \<^typ>\<open>string\<close>: lists of 8-bit characters, so the model covers the
  code points below 256. Python's unbounded integers are \<^typ>\<open>int\<close>. Every exception
  the modelled code can raise is a value of \<open>error\<close>; a function that can raise returns
  \<open>error + 'a\<close> with \<open>Inl\<close> the exception.
\<close>

datatype error = ValueError | TypeError | KeyError | IndexError | UnboundLocalError

text \<open>
  \<open>str.isdigit\<close> on the code points below 256: the ASCII digits and the three
  superscript digits U+00B2, U+00B3 and U+00B9, which \<open>int()\<close> refuses.
\<close>

definition ascii_digit :: "char \<Rightarrow> bool" where
  "ascii_digit c = (c \<in> set ''0123456789'')"

definition isdigit :: "char \<Rightarrow> bool" where
  "isdigit c = (ascii_digit c \<or> c = CHR 0xB2 \<or> c = CHR 0xB3 \<or> c = CHR 0xB9)"

definition digit_val :: "char \<Rightarrow> int" where
  "digit_val c = int (of_char c) - 48"

text \<open>
  \<open>int(num)\<close> for a string of \<open>isdigit\<close> characters: the decimal value when all of
  them are ASCII digits, \<open>ValueError\<close> otherwise. (The interpreter's limit on the number
  of digits of a literal is not modelled.)
\<close>

definition py_int :: "string \<Rightarrow> int option" where
  "py_int num = (if num \<noteq> [] \<and> list_all ascii_digit num
                 then Some (foldl (\<lambda>acc c. acc * 10 + digit_val c) 0 num)
                 else None)"

section \<open>parse\_duration (main.py, lines 161--178)\<close>

text \<open>
  The loop over the characters of the duration string, with the two loop variables
  \<open>total_minutes\<close> and \<open>num\<close> as arguments. A character that is neither a digit nor a
  unit leaves both unchanged.
\<close>

fun parse_duration_loop :: "string \<Rightarrow> int \<Rightarrow> string \<Rightarrow> error + int" where
  "parse_duration_loop [] total_minutes num = Inr total_minutes"
| "parse_duration_loop (c # cs) total_minutes num =
     (if isdigit c then parse_duration_loop cs total_minutes (num @ [c])
      else if c = CHR ''h'' \<or> c = CHR ''m'' then
        (if num \<noteq> [] then
           (case py_int num of
              None \<Rightarrow> Inl ValueError
            | Some v \<Rightarrow>
                parse_duration_loop cs
                  (if c = CHR ''h'' then total_minutes + v * 60 else total_minutes + v) [])
         else parse_duration_loop cs total_minutes num)
      else parse_duration_loop cs total_minutes num)"

text \<open>
  The argument is \<open>None\<close> for Python's \<open>None\<close>; the result \<open>Inr None\<close> is the
  returned \<open>None\<close> ("no duration").
\<close>

definition parse_duration :: "string option \<Rightarrow> error + int option" where
  "parse_duration duration_str =
     (case duration_str of
        None \<Rightarrow> Inr None
      | Some s \<Rightarrow>
          if s = [] then Inr None
          else (case parse_duration_loop s 0 [] of
                  Inl e \<Rightarrow> Inl e
                | Inr total_minutes \<Rightarrow> Inr (Some total_minutes)))"

section \<open>Aware datetimes\<close>

text \<open>
  A \<open>datetime\<close> is an aware \<open>datetime.datetime\<close>: its wall-clock reading \<open>wall\<close>, in
  microseconds since 1970-01-01 00:00 on that clock, and the UTC offset \<open>utcoffset\<close> of its
  \<open>tzinfo\<close>, in microseconds. Python compares and subtracts aware datetimes of different
  \<open>tzinfo\<close> by their UTC instants, \<open>instant\<close>; \<open>.date()\<close> and \<open>datetime.combine\<close> work on
  the wall clock, and adding a \<open>timedelta\<close> moves the wall clock and keeps the \<open>tzinfo\<close>.

  The code builds \<open>now\<close> with \<open>datetime.now(TIMEZONE)\<close>, which carries the offset in force
  at that moment, but builds every entry time with \<open>tzinfo=TIMEZONE\<close> (lines 74, 206, 214,
  216, 304), which for a pytz zone carries the offset of the zone object itself: the
  zone's first standard offset, its local mean time rounded to the minute. For the
  default zone Asia/Kolkata that is +05:53, while \<open>now\<close> carries +05:30; for UTC both are
  0. The offset of the zone object is the argument \<open>tz\<close> of \<open>combine\<close> and \<open>end_of_day\<close>.
\<close>

record datetime =
  wall :: int
  utcoffset :: int

definition us_per_second :: int where "us_per_second = 1000000"
definition us_per_minute :: int where "us_per_minute = 60000000"
definition us_per_day :: int where "us_per_day = 86400000000"

definition minutes :: "int \<Rightarrow> int" where
  "minutes n = n * us_per_minute"

definition instant :: "datetime \<Rightarrow> int" where
  "instant dt = wall dt - utcoffset dt"

definition date_of :: "datetime \<Rightarrow> int" where
  "date_of dt = wall dt div us_per_day"

definition combine :: "int \<Rightarrow> int \<times> int \<Rightarrow> int \<Rightarrow> datetime" where
  "combine d t tz =
     \<lparr>wall = d * us_per_day + (fst t * 60 + snd t) * us_per_minute, utcoffset = tz\<rparr>"

definition end_of_day :: "int \<Rightarrow> int \<Rightarrow> datetime" where
  "end_of_day d tz = \<lparr>wall = d * us_per_day + 86399 * us_per_second, utcoffset = tz\<rparr>"

definition plus_minutes :: "datetime \<Rightarrow> int \<Rightarrow> datetime" where
  "plus_minutes dt n = dt\<lparr>wall := wall dt + minutes n\<rparr>"

text \<open>
  \<open>datetime.strptime(s, '%H:%M').time()\<close>: the hour is one or two ASCII digits with value
  at most 23, then a colon, then the minute, one or two ASCII digits with value at most 59,
  and nothing else; \<open>None\<close> stands for the \<open>ValueError\<close> of every other string.
\<close>

definition strptime :: "string \<Rightarrow> (int \<times> int) option" where
  "strptime s =
     (let hs = takeWhile (\<lambda>c. c \<noteq> CHR '':'') s;
          r = dropWhile (\<lambda>c. c \<noteq> CHR '':'') s
      in case r of
           [] \<Rightarrow> None
         | _ # ms \<Rightarrow>
             if (length hs = 1 \<or> length hs = 2) \<and> (length ms = 1 \<or> length ms = 2) then
               (case (py_int hs, py_int ms) of
                  (Some h, Some m) \<Rightarrow> if h \<le> 23 \<and> m \<le> 59 then Some (h, m) else None
                | _ \<Rightarrow> None)
             else None)"

section \<open>The timetable (main.py, lines 180--197)\<close>

text \<open>
  \<open>timetable_item\<close> is an object of the timetable file: \<open>time\<close> and \<open>task\<close> are
  required, \<open>duration\<close> and \<open>notes\<close> are optional keys. \<open>entry\<close> is the dictionary after
  \<open>load_timetable\<close> has added \<open>duration_minutes\<close> and the default of \<open>notes\<close> (the field
  \<open>entry_notes\<close>, since \<open>notes\<close> is reserved).
\<close>

record timetable_item =
  item_time :: string
  item_task :: string
  item_duration :: "string option"
  item_notes :: "string option"

record entry =
  time :: string
  task :: string
  duration_minutes :: "int option"
  entry_notes :: string

definition get_default :: "string option \<Rightarrow> string \<Rightarrow> string" where
  "get_default v d = (case v of None \<Rightarrow> d | Some s \<Rightarrow> s)"

fun load_timetable :: "timetable_item list \<Rightarrow> error + entry list" where
  "load_timetable [] = Inr []"
| "load_timetable (item # items) =
     (case parse_duration (Some (get_default (item_duration item) [])) of
        Inl e \<Rightarrow> Inl e
      | Inr dm \<Rightarrow>
          (case load_timetable items of
             Inl e \<Rightarrow> Inl e
           | Inr es \<Rightarrow>
               Inr (\<lparr>time = item_time item, task = item_task item, duration_minutes = dm,
                     entry_notes = get_default (item_notes item) []\<rparr> # es)))"

section \<open>get\_current\_active\_timetable\_entry (main.py, lines 199--226)\<close>

text \<open>
  The end of an entry's window (lines 208--216): its start plus its duration when
  \<open>duration_minutes\<close> is truthy (neither \<open>None\<close> nor 0), else the start of the next
  entry of the sorted timetable, whose time string is parsed here, else 23:59:59.
\<close>

definition window_end ::
  "int \<Rightarrow> datetime \<Rightarrow> datetime \<Rightarrow> entry \<Rightarrow> entry list \<Rightarrow> error + datetime" where
  "window_end tz current_time task_dt e rest =
     (case duration_minutes e of
        Some d \<Rightarrow>
          if d \<noteq> 0 then Inr (plus_minutes task_dt d)
          else (case rest of
                  [] \<Rightarrow> Inr (end_of_day (date_of current_time) tz)
                | nxt # _ \<Rightarrow>
                    (case strptime (time nxt) of
                       None \<Rightarrow> Inl ValueError
                     | Some t \<Rightarrow> Inr (combine (date_of current_time) t tz)))
      | None \<Rightarrow>
          (case rest of
             [] \<Rightarrow> Inr (end_of_day (date_of current_time) tz)
           | nxt # _ \<Rightarrow>
               (case strptime (time nxt) of
                  None \<Rightarrow> Inl ValueError
                | Some t \<Rightarrow> Inr (combine (date_of current_time) t tz))))"

text \<open>
  The loop of lines 204--225 over the sorted timetable; \<open>prev\<close> is the entry before the
  current one (\<open>None\<close> at index 0, so \<open>i > 0\<close> is \<open>prev \<noteq> None\<close>). In the \<open>elif\<close> of
  line 223 the conjuncts are evaluated from the left; the third one calls
  \<open>datetime.combine\<close> with the previous entry's time \<^emph>\<open>string\<close> as the time argument,
  which raises \<open>TypeError\<close> before any comparison, so line 224 is never reached.
\<close>

fun active_loop ::
  "int \<Rightarrow> datetime \<Rightarrow> entry option \<Rightarrow> entry list \<Rightarrow> error + entry option" where
  "active_loop tz current_time prev [] = Inr None"
| "active_loop tz current_time prev (e # rest) =
     (case strptime (time e) of
        None \<Rightarrow> Inl ValueError
      | Some task_time_obj \<Rightarrow>
          (let task_dt = combine (date_of current_time) task_time_obj tz in
           case window_end tz current_time task_dt e rest of
             Inl err \<Rightarrow> Inl err
           | Inr end_dt \<Rightarrow>
               if instant task_dt \<le> instant current_time
                  \<and> instant current_time \<le> instant end_dt then Inr (Some e)
               else if prev \<noteq> None \<and> instant current_time = instant task_dt then
                 Inl TypeError
               else active_loop tz current_time (Some e) rest))"

text \<open>\<open>sorted(timetable, key=lambda x: x['time'])\<close> is a stable sort on the time strings.\<close>

definition sorted_timetable :: "entry list \<Rightarrow> entry list" where
  "sorted_timetable timetable = sort_key time timetable"

text \<open>\<open>tz\<close> is the UTC offset of the zone object \<open>TIMEZONE\<close>.\<close>

definition get_current_active_timetable_entry ::
  "int \<Rightarrow> entry list \<Rightarrow> datetime \<Rightarrow> error + entry option" where
  "get_current_active_timetable_entry tz timetable current_time =
     active_loop tz current_time None (sorted_timetable timetable)"

text \<open>
  The datetime reading \<open>h:m:s\<close> on day \<open>d\<close> with a UTC offset of \<open>off\<close> minutes, for
  stating concrete cases.
\<close>

definition at_time :: "int \<Rightarrow> int \<Rightarrow> int \<Rightarrow> int \<Rightarrow> int \<Rightarrow> datetime" where
  "at_time off d h m s =
     \<lparr>wall = d * us_per_day + ((h * 60 + m) * 60 + s) * us_per_second,
      utcoffset = minutes off\<rparr>"

section \<open>Strings built by the notification code\<close>

text \<open>
  \<open>str.lower\<close> is modelled on the ASCII letters. The code only compares a lowered name
  with an ASCII literal, and below code point 256 no other character lowers to an ASCII
  one, so these comparisons come out as in Python.
\<close>

definition lower_char :: "char \<Rightarrow> char" where
  "lower_char c =
     (if CHR ''A'' \<le> c \<and> c \<le> CHR ''Z'' then char_of (of_char c + (32::nat)) else c)"

definition lower :: "string \<Rightarrow> string" where
  "lower s = map lower_char s"

text \<open>The decimal text of an integer, as an f-string prints it.\<close>

fun str_nat :: "nat \<Rightarrow> string" where
  "str_nat n =
     (if n < 10 then [char_of (48 + n)]
      else str_nat (n div 10) @ [char_of (48 + n mod 10)])"

declare str_nat.simps [simp del]

definition str_int :: "int \<Rightarrow> string" where
  "str_int i = (if i < 0 then CHR ''-'' # str_nat (nat (- i)) else str_nat (nat i))"

text \<open>\<open>sub in s\<close> for strings: \<open>sub\<close> occurs in \<open>s\<close> as a contiguous piece.\<close>

fun contains :: "string \<Rightarrow> string \<Rightarrow> bool" where
  "contains sub [] = (sub = [])"
| "contains sub (c # cs) = (take (length sub) (c # cs) = sub \<or> contains sub cs)"

section \<open>get\_llm\_response (main.py, lines 82--108)\<close>

text \<open>
  A decoded JSON document. Numbers are integers here; an object is the list of its
  members, with distinct keys.
\<close>

datatype json =
    JNull
  | JBool bool
  | JNum int
  | JStr string
  | JArr "json list"
  | JObj "(string \<times> json) list"

text \<open>\<open>v[key]\<close> with a string key, \<open>v[0]\<close>, and \<open>v[:50]\<close>, with the exception Python
  raises for each kind of value. (Slicing a dictionary raises \<open>TypeError\<close> up to
  Python 3.11 and \<open>KeyError\<close> from 3.12 on; the model has the former.)\<close>

fun subscript_key :: "json \<Rightarrow> string \<Rightarrow> error + json" where
  "subscript_key (JObj members) k = (case map_of members k of None \<Rightarrow> Inl KeyError | Some v \<Rightarrow> Inr v)"
| "subscript_key _ k = Inl TypeError"

fun subscript_0 :: "json \<Rightarrow> error + json" where
  "subscript_0 (JArr []) = Inl IndexError"
| "subscript_0 (JArr (v # vs)) = Inr v"
| "subscript_0 (JStr []) = Inl IndexError"
| "subscript_0 (JStr (c # cs)) = Inr (JStr [c])"
| "subscript_0 (JObj members) = Inl KeyError"
| "subscript_0 _ = Inl TypeError"

fun slice_50 :: "json \<Rightarrow> error + json" where
  "slice_50 (JStr s) = Inr (JStr (take 50 s))"
| "slice_50 (JArr vs) = Inr (JArr (take 50 vs))"
| "slice_50 _ = Inl TypeError"

text \<open>
  Lines 99--101: \<open>response.json()['choices'][0]['message']['content']\<close>, the slice taken
  for the log line, and the return of the content. None of these exceptions is a
  \<open>RequestException\<close>, so the \<open>except\<close> clause of line 102 does not catch them.
\<close>

definition response_content :: "json \<Rightarrow> error + json" where
  "response_content body =
     (case subscript_key body ''choices'' of
        Inl e \<Rightarrow> Inl e
      | Inr choices \<Rightarrow>
          (case subscript_0 choices of
             Inl e \<Rightarrow> Inl e
           | Inr choice \<Rightarrow>
               (case subscript_key choice ''message'' of
                  Inl e \<Rightarrow> Inl e
                | Inr message \<Rightarrow>
                    (case subscript_key message ''content'' of
                       Inl e \<Rightarrow> Inl e
                     | Inr content \<Rightarrow>
                         (case slice_50 content of
                            Inl e \<Rightarrow> Inl e
                          | Inr _ \<Rightarrow> Inr content)))))"

text \<open>
  What one attempt meets: \<open>RequestException msg\<close> when \<open>requests.post\<close>,
  \<open>raise_for_status\<close> or \<open>response.json()\<close> raises a \<open>RequestException\<close> whose text is
  \<open>msg\<close> (connection error, timeout, status 4xx or 5xx, undecodable body), \<open>Response body\<close>
  when a 2xx response with the JSON document \<open>body\<close> arrives. The transport gives the
  outcome of each attempt of a call; the pauses between attempts are not modelled.
\<close>

datatype transport_outcome = RequestException string | Response json

type_synonym transport = "string \<Rightarrow> nat \<Rightarrow> transport_outcome"

fun llm_attempts :: "transport \<Rightarrow> string \<Rightarrow> int \<Rightarrow> nat list \<Rightarrow> error + json" where
  "llm_attempts tr prompt retries [] = Inr (JStr ''Max retries reached for LLM API.'')"
| "llm_attempts tr prompt retries (attempt # rest) =
     (case tr prompt attempt of
        Response body \<Rightarrow> response_content body
      | RequestException e \<Rightarrow>
          if int attempt < retries - 1 then llm_attempts tr prompt retries rest
          else Inr (JStr (''API error: '' @ take 50 e @ ''... (Check app.log for details)'')))"

text \<open>\<open>api_key\<close> is \<open>OPENROUTER_API_KEY\<close>: \<open>None\<close> when the variable is not set.\<close>

definition get_llm_response :: "string option \<Rightarrow> transport \<Rightarrow> string \<Rightarrow> int \<Rightarrow> error + json" where
  "get_llm_response api_key tr prompt retries =
     (if api_key = None \<or> api_key = Some [] then
        Inr (JStr ''LLM unavailable: Set OPENROUTER_API_KEY in .env.'')
      else llm_attempts tr prompt retries [0..<nat retries])"

text \<open>Truth value of a Python value in a condition.\<close>

fun truthy :: "json \<Rightarrow> bool" where
  "truthy JNull = False"
| "truthy (JBool b) = b"
| "truthy (JNum n) = (n \<noteq> 0)"
| "truthy (JStr s) = (s \<noteq> [])"
| "truthy (JArr vs) = (vs \<noteq> [])"
| "truthy (JObj members) = (members \<noteq> [])"

section \<open>send\_notification (main.py, lines 139--159)\<close>

text \<open>
  The call is recorded by the caller as the pair (title, message). The function itself
  raises only outside its \<open>try\<close>: \<open>len(message)\<close> on a value without length, or
  \<open>message[:200] + "..."\<close> on a value longer than 200 that is not a string.
\<close>

fun send_notification :: "string \<Rightarrow> json \<Rightarrow> error option" where
  "send_notification title (JStr s) = None"
| "send_notification title (JArr vs) = (if length vs > 200 then Some TypeError else None)"
| "send_notification title (JObj members) = (if length members > 200 then Some TypeError else None)"
| "send_notification title _ = Some TypeError"

section \<open>get\_smart\_notification (main.py, lines 285--379)\<close>

text \<open>
  The values read from \<open>config.json\<close> (lines 61--64) and the two module constants of
  lines 76--77, with their defaults. Of the zone \<open>TIMEZONE\<close> the code uses the zone
  object as a \<open>tzinfo\<close>; \<open>timezone_offset_minutes\<close> is the UTC offset of that object, in
  minutes: 353 for the default Asia/Kolkata, 0 when the configured zone is UTC.
\<close>

record config =
  notification_interval_seconds :: int
  minutes_before_task :: int
  grace_minutes_after_start :: int
  max_sleep_notifications :: int
  sleep_follow_up_interval :: int
  timezone_offset_minutes :: int

definition default_config :: config where
  "default_config =
     \<lparr>notification_interval_seconds = 1800, minutes_before_task = 15,
      grace_minutes_after_start = 2, max_sleep_notifications = 2,
      sleep_follow_up_interval = 15, timezone_offset_minutes = 353\<rparr>"

text \<open>The default configuration with \<open>"timezone": "UTC"\<close>.\<close>

definition utc_config :: config where
  "utc_config = default_config\<lparr>timezone_offset_minutes := 0\<rparr>"

definition tz_of :: "config \<Rightarrow> int" where
  "tz_of cfg = minutes (timezone_offset_minutes cfg)"

text \<open>
  The two globals the function updates (lines 74--75). The first starts as
  \<open>datetime(1970, 1, 1, tzinfo=TIMEZONE)\<close>.
\<close>

record notification_state =
  last_in_task_notification_time :: datetime
  sleep_notification_count :: int

definition initial_state :: "config \<Rightarrow> notification_state" where
  "initial_state cfg =
     \<lparr>last_in_task_notification_time = \<lparr>wall = 0, utcoffset = tz_of cfg\<rparr>,
      sleep_notification_count = 0\<rparr>"

text \<open>
  The loop of lines 302--312. Its variable \<open>task_dt_local\<close> stays bound after the loop
  and is read again on lines 320 and 341: it is the start of the upcoming entry when the
  loop ends at the \<open>break\<close>, and the start of the last entry otherwise.
  \<open>int(x.total_seconds() / 60)\<close> rounds towards zero, which is \<open>sdiv\<close>.
\<close>

record upcoming_scan =
  upcoming_task_entry :: "entry option"
  time_until_upcoming_task_minutes :: int
  is_upcoming_task_just_started :: bool
  task_dt_local :: "datetime option"

fun upcoming_loop :: "config \<Rightarrow> datetime \<Rightarrow> entry list \<Rightarrow> datetime option \<Rightarrow> error + upcoming_scan" where
  "upcoming_loop cfg now_local [] dt =
     Inr \<lparr>upcoming_task_entry = None, time_until_upcoming_task_minutes = 0,
          is_upcoming_task_just_started = False, task_dt_local = dt\<rparr>"
| "upcoming_loop cfg now_local (e # rest) dt =
     (case strptime (time e) of
        None \<Rightarrow> Inl ValueError
      | Some task_time_obj \<Rightarrow>
          (let task_dt = combine (date_of now_local) task_time_obj (tz_of cfg) in
           if instant task_dt \<ge> instant now_local - minutes (grace_minutes_after_start cfg) then
             Inr \<lparr>upcoming_task_entry = Some e,
                  time_until_upcoming_task_minutes =
                    (instant task_dt - instant now_local) sdiv us_per_minute,
                  is_upcoming_task_just_started =
                    (instant now_local \<ge> instant task_dt \<and>
                     instant now_local - instant task_dt
                       \<le> grace_minutes_after_start cfg * 60 * us_per_second),
                  task_dt_local = Some task_dt\<rparr>
           else upcoming_loop cfg now_local rest (Some task_dt)))"

text \<open>The three local variables of lines 314--316.\<close>

record notification_vars =
  prompt :: "string option"
  notification_title :: "string option"
  notification_message :: "string option"

definition no_vars :: notification_vars where
  "no_vars = \<lparr>prompt = None, notification_title = None, notification_message = None\<rparr>"

text \<open>
  Where the function stands after line 366: it has returned on line 329, with the
  notifications it sent, or it goes on to line 368 with the three variables. Both carry
  the state as updated so far.
\<close>

datatype decision =
    Return "(string \<times> json) list" notification_state
  | Continue notification_vars notification_state

definition check_in_prompt :: "string \<Rightarrow> string \<Rightarrow> string" where
  "check_in_prompt name nts =
     ''Current task: '' @ [CHR 0x27] @ name @ [CHR 0x27] @ '' with notes: '' @ [CHR 0x27] @ nts
       @ [CHR 0x27] @ ''.'' @ [CHR 0x0A]
       @ ''Provide a concise (under 100 chars), encouraging check-in for this task.''"

definition upcoming_prompt :: "string \<Rightarrow> entry \<Rightarrow> string \<Rightarrow> string" where
  "upcoming_prompt name up time_description =
     ''Current task: '' @ [CHR 0x27] @ name @ [CHR 0x27] @ ''.'' @ [CHR 0x0A]
       @ ''Next task: '' @ [CHR 0x27] @ task up @ [CHR 0x27] @ '' at '' @ time up
       @ '' ('' @ time_description @ '') with notes: '' @ [CHR 0x27] @ entry_notes up
       @ [CHR 0x27] @ ''.'' @ [CHR 0x0A]
       @ ''Generate a concise (under 100 chars), encouraging notification to transition to the next task.''"

text \<open>Lines 344--351.\<close>

definition time_description_of :: "datetime \<Rightarrow> datetime \<Rightarrow> upcoming_scan \<Rightarrow> string" where
  "time_description_of now_local task_dt sc =
     (if is_upcoming_task_just_started sc then
        (let minutes_passed = (instant now_local - instant task_dt) sdiv us_per_minute in
         if minutes_passed = 0 then ''just started''
         else ''started '' @ str_int minutes_passed @ '' minutes ago'')
      else if time_until_upcoming_task_minutes sc = 0 then ''is starting now''
      else ''in '' @ str_int \<bar>time_until_upcoming_task_minutes sc\<bar> @ '' minutes'')"

text \<open>
  Lines 318--366, given the active entry, the result of the upcoming scan and the value
  \<open>task_dt\<close> of \<open>task_dt_local\<close>. Differences of datetimes are differences of their
  instants. The elapsed minutes of line 320 are compared as microseconds:
  \<open>x / 60 <= 0\<close> is \<open>x <= 0\<close> and \<open>x / 60 >= k\<close> is \<open>x >= 60 k\<close> for an integer \<open>k\<close>.
\<close>

definition sleep_title :: string where
  "sleep_title = ''Current Task: Sleep''"

definition sleep_message :: string where
  "sleep_message = ''It'' @ [CHR 0x27] @ ''s sleep time! Time to unwind and rest for tomorrow!''"

definition policy ::
  "config \<Rightarrow> entry option \<Rightarrow> upcoming_scan \<Rightarrow> datetime \<Rightarrow> notification_state \<Rightarrow> datetime \<Rightarrow> decision" where
  "policy cfg current_active_task_entry sc task_dt st now_local =
     (let current_active_task_name =
            (case current_active_task_entry of
               Some a \<Rightarrow> task a
             | None \<Rightarrow> ''no specific task'')
      in
      if current_active_task_entry \<noteq> None
         \<and> lower current_active_task_name \<noteq> ''no specific task'' then
        (if lower current_active_task_name = ''sleep''
            \<and> sleep_notification_count st < max_sleep_notifications cfg then
           (let time_since_task_start = instant now_local - instant task_dt in
            if time_since_task_start \<le> 0
               \<or> (time_since_task_start \<ge> minutes (sleep_follow_up_interval cfg)
                   \<and> sleep_notification_count st = 1) then
              Return [(sleep_title, JStr sleep_message)]
                (st\<lparr>sleep_notification_count := sleep_notification_count st + 1,
                    last_in_task_notification_time := now_local\<rparr>)
            else Return [] st)
         else if instant now_local - instant (last_in_task_notification_time st)
                   \<ge> notification_interval_seconds cfg * us_per_second then
           Continue
             \<lparr>prompt = Some (check_in_prompt current_active_task_name
                               (case current_active_task_entry of
                                  Some a \<Rightarrow> entry_notes a
                                | None \<Rightarrow> [])),
              notification_title = Some (''Check-in: '' @ current_active_task_name),
              notification_message = None\<rparr>
             (st\<lparr>last_in_task_notification_time := now_local\<rparr>)
         else Continue no_vars st)
      else
        (case upcoming_task_entry sc of
           None \<Rightarrow> Continue no_vars st
         | Some up \<Rightarrow>
             if (0 \<le> instant task_dt - instant now_local
                 \<and> instant task_dt - instant now_local \<le> minutes (minutes_before_task cfg))
                \<or> is_upcoming_task_just_started sc then
               (if lower (task up) = ''sleep'' then
                  Continue
                    \<lparr>prompt = None,
                     notification_title = Some ''Time for Bed!'',
                     notification_message =
                       Some (if time_until_upcoming_task_minutes sc > 0 then
                               ''Scheduled to sleep in ''
                                 @ str_int (time_until_upcoming_task_minutes sc)
                                 @ '' minutes. Wind down!''
                             else ''It'' @ [CHR 0x27] @ ''s past '' @ time up @ ''. Time to rest!'')\<rparr>
                    st
                else
                  Continue
                    \<lparr>prompt = Some (upcoming_prompt current_active_task_name up
                                      (time_description_of now_local task_dt sc)),
                     notification_title = Some (''Upcoming: '' @ task up),
                     notification_message = None\<rparr>
                    st)
             else Continue no_vars st))"

text \<open>
  Lines 294--312: the two scans. \<open>task_dt_local\<close> is bound once the loop has run, which
  it has for a non-empty timetable; reading it unbound would raise \<open>UnboundLocalError\<close>.
  An exception of a scan leaves the function before any state is written.
\<close>

definition name_of :: "entry option \<Rightarrow> string" where
  "name_of current_active_task_entry =
     (case current_active_task_entry of Some a \<Rightarrow> task a | None \<Rightarrow> ''no specific task'')"

definition scans ::
  "config \<Rightarrow> entry list \<Rightarrow> datetime \<Rightarrow> error + (entry option \<times> upcoming_scan \<times> datetime)" where
  "scans cfg timetable now_local =
     (case get_current_active_timetable_entry (tz_of cfg) timetable now_local of
        Inl e \<Rightarrow> Inl e
      | Inr current_active_task_entry \<Rightarrow>
          (case upcoming_loop cfg now_local (sorted_timetable timetable) None of
             Inl e \<Rightarrow> Inl e
           | Inr sc \<Rightarrow>
               (case task_dt_local sc of
                  None \<Rightarrow> Inl UnboundLocalError
                | Some task_dt \<Rightarrow> Inr (current_active_task_entry, sc, task_dt))))"

text \<open>Lines 290--366: what the function has decided when it reaches line 368.\<close>

definition decide ::
  "config \<Rightarrow> entry list \<Rightarrow> notification_state \<Rightarrow> datetime \<Rightarrow> error + decision" where
  "decide cfg timetable st now_local =
     (if timetable = [] then Inr (Return [] st)
      else
        (case scans cfg timetable now_local of
           Inl e \<Rightarrow> Inl e
         | Inr (current_active_task_entry, sc, task_dt) \<Rightarrow>
             Inr (policy cfg current_active_task_entry sc task_dt st now_local)))"

text \<open>
  Lines 368--379. \<open>None\<close> and the empty string are both false in a condition, so a
  variable is tested through \<open>opt_str\<close>. The result is the list of calls of
  \<open>send_notification\<close> and the exception that ended the function, if any.
  \<open>get_llm_response\<close> is called with its default of 3 retries.
\<close>

definition opt_str :: "string option \<Rightarrow> string" where
  "opt_str v = (case v of None \<Rightarrow> [] | Some s \<Rightarrow> s)"

definition dispatch ::
  "string option \<Rightarrow> transport \<Rightarrow> entry option \<Rightarrow> string \<Rightarrow> notification_vars
     \<Rightarrow> (string \<times> json) list \<times> error option" where
  "dispatch api_key tr upcoming current_active_task_name v =
     (let title = opt_str (notification_title v) in
      if opt_str (notification_message v) \<noteq> [] then
        ([(title, JStr (opt_str (notification_message v)))],
         send_notification title (JStr (opt_str (notification_message v))))
      else if opt_str (prompt v) \<noteq> [] \<and> title \<noteq> [] then
        (case get_llm_response api_key tr (opt_str (prompt v)) 3 of
           Inl e \<Rightarrow> ([], Some e)
         | Inr llm_notification \<Rightarrow>
             if truthy llm_notification then
               ([(title, llm_notification)], send_notification title llm_notification)
             else if contains ''Upcoming:'' title then
               (case upcoming of
                  None \<Rightarrow> ([], Some TypeError)
                | Some up \<Rightarrow>
                    ([(title, JStr (''Prepare for: '' @ task up @ '' at '' @ time up @ ''.''))],
                     None))
             else if contains ''Check-in:'' title then
               ([(title, JStr (''Doing: '' @ current_active_task_name @ ''. Keep it up!''))], None)
             else ([], None))
      else ([], None))"

text \<open>
  One call of \<open>get_smart_notification\<close>: the notifications handed to
  \<open>send_notification\<close>, the state it leaves and the exception it raised, if any.
\<close>

record outcome =
  sent :: "(string \<times> json) list"
  state_after :: notification_state
  raised :: "error option"

definition get_smart_notification ::
  "config \<Rightarrow> string option \<Rightarrow> transport \<Rightarrow> entry list \<Rightarrow> notification_state \<Rightarrow> datetime
     \<Rightarrow> outcome" where
  "get_smart_notification cfg api_key tr timetable st now_local =
     (if timetable = [] then \<lparr>sent = [], state_after = st, raised = None\<rparr>
      else
        (case scans cfg timetable now_local of
           Inl e \<Rightarrow> \<lparr>sent = [], state_after = st, raised = Some e\<rparr>
         | Inr (current_active_task_entry, sc, task_dt) \<Rightarrow>
             (case policy cfg current_active_task_entry sc task_dt st now_local of
                Return ns st' \<Rightarrow> \<lparr>sent = ns, state_after = st', raised = None\<rparr>
              | Continue v st' \<Rightarrow>
                  (case dispatch api_key tr (upcoming_task_entry sc)
                          (name_of current_active_task_entry) v of
                     (ns, err) \<Rightarrow> \<lparr>sent = ns, state_after = st', raised = err\<rparr>))))"

text \<open>
  A process lifetime: the calls of \<open>get_smart_notification\<close> one after the other, each at
  its own instant and with its own transport behaviour, on the state the call before
  left (also when that call raised). The result is every notification sent and the
  final state.
\<close>

fun run ::
  "config \<Rightarrow> string option \<Rightarrow> entry list \<Rightarrow> notification_state \<Rightarrow> (datetime \<times> transport) list
     \<Rightarrow> (string \<times> json) list \<times> notification_state" where
  "run cfg api_key timetable st [] = ([], st)"
| "run cfg api_key timetable st (tick # ticks) =
     (let out = get_smart_notification cfg api_key (snd tick) timetable st (fst tick);
          later = run cfg api_key timetable (state_after out) ticks
      in (sent out @ fst later, snd later))"

definition sleep_notifications :: "(string \<times> json) list \<Rightarrow> nat" where
  "sleep_notifications ns = length (filter (\<lambda>n. fst n = sleep_title) ns)"

section \<open>Timetables and instants of the worked cases\<close>

text \<open>An entry with neither duration nor notes, and one with a duration in minutes.\<close>

definition plain_entry :: "string \<Rightarrow> string \<Rightarrow> entry" where
  "plain_entry t name = \<lparr>time = t, task = name, duration_minutes = None, entry_notes = []\<rparr>"

definition timed_entry :: "string \<Rightarrow> string \<Rightarrow> int \<Rightarrow> entry" where
  "timed_entry t name d = \<lparr>time = t, task = name, duration_minutes = Some d, entry_notes = []\<rparr>"

text \<open>The timetable file of the end-to-end scenario: Wake, Work for four hours, Sleep.\<close>

definition scenario_items :: "timetable_item list" where
  "scenario_items =
     [\<lparr>item_time = ''08:00'', item_task = ''Wake'', item_duration = None, item_notes = None\<rparr>,
      \<lparr>item_time = ''09:00'', item_task = ''Work'', item_duration = Some ''4h'', item_notes = None\<rparr>,
      \<lparr>item_time = ''13:00'', item_task = ''Sleep'', item_duration = None, item_notes = None\<rparr>]"

definition scenario_timetable :: "entry list" where
  "scenario_timetable =
     [plain_entry ''08:00'' ''Wake'', timed_entry ''09:00'' ''Work'' 240,
      plain_entry ''13:00'' ''Sleep'']"

text \<open>A transport on which every attempt fails, and one that answers with \<open>{}\<close>.\<close>

definition refusing :: transport where
  "refusing p attempt = RequestException ''Connection refused''"

definition answering :: "json \<Rightarrow> transport" where
  "answering body p attempt = Response body"

text \<open>
  Four calls during one sleep window, on a clock at UTC, none of which reaches the
  network.
\<close>

definition sleep_ticks :: "(datetime \<times> transport) list" where
  "sleep_ticks =
     [(at_time 0 20000 22 10 0, refusing), (at_time 0 20000 22 40 0, refusing),
      (at_time 0 20000 22 50 0, refusing), (at_time 0 20000 22 55 0, refusing)]"

text \<open>
  Whether a decision is the one of the upcoming-task branch (lines 340--366) for the
  upcoming entry \<open>e\<close>: its title is the one set on line 354 or on line 366.
\<close>

fun upcoming_fired :: "entry \<Rightarrow> error + decision \<Rightarrow> bool" where
  "upcoming_fired e (Inr (Continue v st)) =
     (notification_title v = Some (''Upcoming: '' @ task e)
      \<or> notification_title v = Some ''Time for Bed!'')"
| "upcoming_fired e (Inr (Return ns st)) = False"
| "upcoming_fired e (Inl err) = False"


section \<open>Properties of parse\_duration\<close>

lemma parse_duration_loop_no_unit:
  "CHR ''h'' \<notin> set s \<Longrightarrow> CHR ''m'' \<notin> set s \<Longrightarrow>
   parse_duration_loop s total_minutes num = Inr total_minutes"
  by (induction s arbitrary: num) auto

lemma isdigit_not_unit: "isdigit c \<Longrightarrow> c \<noteq> CHR ''h'' \<and> c \<noteq> CHR ''m''"
  by (auto simp: isdigit_def ascii_digit_def)

lemma parse_duration_loop_digits:
  "\<forall>c\<in>set ds. isdigit c \<Longrightarrow> parse_duration_loop ds total_minutes num = Inr total_minutes"
  by (induction ds arbitrary: num) auto

lemma parse_duration_loop_trailing:
  "\<forall>c\<in>set ds. isdigit c \<Longrightarrow>
   parse_duration_loop (s @ ds) total_minutes num = parse_duration_loop s total_minutes num"
proof (induction s arbitrary: total_minutes num)
  case Nil
  then show ?case by (simp add: parse_duration_loop_digits)
next
  case (Cons c cs)
  then show ?case by (simp split: option.splits)
qed

lemma parse_duration_none_iff:
  "parse_duration d = Inr None \<longleftrightarrow> d = None \<or> d = Some []"
  by (auto simp: parse_duration_def split: option.splits sum.splits)

text \<open>
  C10. A non-empty duration string with no \<open>h\<close> and no \<open>m\<close> parses to 0, not to
  "no duration"; digits at the end of a non-empty string that no unit follows add nothing
  to the total; and the result is "no duration" exactly for the absent or empty input.
\<close>

theorem parse_duration_unitless:
  "(s \<noteq> [] \<and> CHR ''h'' \<notin> set s \<and> CHR ''m'' \<notin> set s
      \<longrightarrow> parse_duration (Some s) = Inr (Some 0))
   \<and> (s \<noteq> [] \<and> (\<forall>c\<in>set ds. isdigit c)
      \<longrightarrow> parse_duration (Some (s @ ds)) = parse_duration (Some s))
   \<and> (parse_duration d = Inr None \<longleftrightarrow> d = None \<or> d = Some [])"
  by (simp add: parse_duration_def parse_duration_loop_no_unit
      parse_duration_loop_trailing parse_duration_none_iff [unfolded parse_duration_def])

theorem parse_duration_unitless_witness:
  "parse_duration (Some ''abc'') = Inr (Some 0)
   \<and> parse_duration (Some ''90'') = Inr (Some 0)
   \<and> parse_duration (Some (''1h'' @ ''30'')) = parse_duration (Some ''1h'')
   \<and> parse_duration (Some ''1h'') = Inr (Some 60)
   \<and> parse_duration (Some []) = Inr None"
proof -
  have d: "\<forall>c\<in>set ''30''. isdigit c" by (simp add: isdigit_def ascii_digit_def)
  have e: "parse_duration (Some ''1h'') = Inr (Some 60)"
    by (simp add: parse_duration_def isdigit_def ascii_digit_def py_int_def digit_val_def)
  show ?thesis
    using parse_duration_unitless [of "''abc''" "[]" "Some []"]
      parse_duration_unitless [of "''90''" "[]" "Some []"]
      parse_duration_unitless [of "''1h''" "''30''" "Some []"] d e
    by simp
qed

section \<open>Active-entry resolution\<close>

text \<open>
  C4 (the code differs from the claim). Timetable: A at 08:00 for 30 minutes, B at 09:00;
  now is the start of B exactly, which lies after the end of A. The inclusive test of
  line 219 holds for B itself, so the resolution returns B, not its predecessor A. The
  \<open>elif\<close> of line 223 is evaluated at the start of an entry only when that entry's
  window ends before it starts, as for B at 10:00 when the string order puts \<open>9:30\<close>
  after \<open>10:00\<close>; there it raises \<open>TypeError\<close>. Both hold with the zone UTC, where the
  start of B is 09:00 on the clock of now, and with the default zone, where it is 08:37
  on that clock.
\<close>

theorem carry_over_returns_current_entry:
  "get_current_active_timetable_entry (tz_of utc_config)
     [timed_entry ''08:00'' ''A'' 30, plain_entry ''09:00'' ''B''] (at_time 0 20000 9 0 0)
   = Inr (Some (plain_entry ''09:00'' ''B''))
   \<and> get_current_active_timetable_entry (tz_of utc_config)
     [timed_entry ''08:00'' ''A'' 30, plain_entry ''10:00'' ''B'', plain_entry ''9:30'' ''C'']
     (at_time 0 20000 10 0 0)
   = Inl TypeError
   \<and> instant (at_time 330 20000 8 37 0)
     = instant (combine 20000 (9, 0) (tz_of default_config))
   \<and> get_current_active_timetable_entry (tz_of default_config)
     [timed_entry ''08:00'' ''A'' 30, plain_entry ''09:00'' ''B''] (at_time 330 20000 8 37 0)
   = Inr (Some (plain_entry ''09:00'' ''B''))
   \<and> get_current_active_timetable_entry (tz_of default_config)
     [timed_entry ''08:00'' ''A'' 30, plain_entry ''10:00'' ''B'', plain_entry ''9:30'' ''C'']
     (at_time 330 20000 9 37 0)
   = Inl TypeError"
  by code_simp







section \<open>The composition client\<close>

text \<open>
  C9 (the code differs from the claim). A 2xx response whose body is the JSON object
  \<open>{}\<close> makes \<open>['choices']\<close> raise \<open>KeyError\<close>, which line 102 does not catch, so the
  call raises to its caller. A body whose content is a JSON array is returned as a list,
  not as a string.
\<close>

theorem get_llm_response_raises_on_unexpected_body:
  "get_llm_response (Some ''key'') (answering (JObj [])) ''hello'' 3 = Inl KeyError
   \<and> get_llm_response (Some ''key'')
        (answering (JObj [(''choices'', JArr [JObj [(''message'', JObj [(''content'', JArr [])])]])]))
        ''hello'' 3 = Inr (JArr [])"
  by code_simp

section \<open>The notification policy\<close>

text \<open>
  C1 (the code differs from the claim). In the end-to-end scenario at 08:50 a check-in
  asks for a composed text: for Wake with the zone UTC, for Work with the default zone,
  where the entries start 23 minutes before their wall-clock times. Without an API key,
  and likewise when every attempt fails, \<open>get_llm_response\<close> returns its diagnostic
  string; the string is not empty, so line 373 takes it for the composed text and it is
  the message handed to \<open>send_notification\<close>. The fallback of lines 376--379 is not
  reached.
\<close>

theorem composition_failure_text_is_sent:
  "sent (get_smart_notification utc_config None refusing scenario_timetable
           (initial_state utc_config) (at_time 0 20000 8 50 0))
     = [(''Check-in: Wake'', JStr ''LLM unavailable: Set OPENROUTER_API_KEY in .env.'')]
   \<and> sent (get_smart_notification utc_config (Some ''key'') refusing scenario_timetable
           (initial_state utc_config) (at_time 0 20000 8 50 0))
     = [(''Check-in: Wake'',
         JStr ''API error: Connection refused... (Check app.log for details)'')]
   \<and> sent (get_smart_notification default_config None refusing scenario_timetable
           (initial_state default_config) (at_time 330 20000 8 50 0))
     = [(''Check-in: Work'', JStr ''LLM unavailable: Set OPENROUTER_API_KEY in .env.'')]
   \<and> sent (get_smart_notification default_config (Some ''key'') refusing scenario_timetable
           (initial_state default_config) (at_time 330 20000 8 50 0))
     = [(''Check-in: Work'',
         JStr ''API error: Connection refused... (Check app.log for details)'')]"
  by code_simp

text \<open>
  C5 (the code differs from the claim). Sleep at 22:00 is active at 22:10 and Read at
  23:00 is the upcoming entry. \<open>task_dt_local\<close> is the variable the upcoming scan left
  behind, the start of Read, so the elapsed time of line 320 is negative (\<open>-50\<close> minutes
  with the zone UTC, \<open>-27\<close> with the default zone) and the sleep notification is sent with
  a count of 0, after the start of the sleep window.
\<close>

theorem sleep_elapsed_uses_scan_variable:
  "scans utc_config [plain_entry ''22:00'' ''Sleep'', plain_entry ''23:00'' ''Read'']
       (at_time 0 20000 22 10 0)
     = Inr (Some (plain_entry ''22:00'' ''Sleep''),
            \<lparr>upcoming_task_entry = Some (plain_entry ''23:00'' ''Read''),
             time_until_upcoming_task_minutes = 50,
             is_upcoming_task_just_started = False,
             task_dt_local = Some (at_time 0 20000 23 0 0)\<rparr>,
            at_time 0 20000 23 0 0)
   \<and> get_smart_notification utc_config None refusing
       [plain_entry ''22:00'' ''Sleep'', plain_entry ''23:00'' ''Read'']
       (initial_state utc_config) (at_time 0 20000 22 10 0)
     = \<lparr>sent = [(sleep_title, JStr sleep_message)],
        state_after = \<lparr>last_in_task_notification_time = at_time 0 20000 22 10 0,
                        sleep_notification_count = 1\<rparr>,
        raised = None\<rparr>
   \<and> scans default_config [plain_entry ''22:00'' ''Sleep'', plain_entry ''23:00'' ''Read'']
       (at_time 330 20000 22 10 0)
     = Inr (Some (plain_entry ''22:00'' ''Sleep''),
            \<lparr>upcoming_task_entry = Some (plain_entry ''23:00'' ''Read''),
             time_until_upcoming_task_minutes = 27,
             is_upcoming_task_just_started = False,
             task_dt_local = Some (at_time 353 20000 23 0 0)\<rparr>,
            at_time 353 20000 23 0 0)
   \<and> get_smart_notification default_config None refusing
       [plain_entry ''22:00'' ''Sleep'', plain_entry ''23:00'' ''Read'']
       (initial_state default_config) (at_time 330 20000 22 10 0)
     = \<lparr>sent = [(sleep_title, JStr sleep_message)],
        state_after = \<lparr>last_in_task_notification_time = at_time 330 20000 22 10 0,
                        sleep_notification_count = 1\<rparr>,
        raised = None\<rparr>"
  by code_simp

lemma policy_check_in:
  assumes "policy cfg a sc dt st now = Continue v st'"
    and "notification_title v = Some (''Check-in: '' @ name)"
  shows "instant now - instant (last_in_task_notification_time st)
           \<ge> notification_interval_seconds cfg * us_per_second
         \<and> st' = st\<lparr>last_in_task_notification_time := now\<rparr>"
  using assms
  by (auto simp: policy_def Let_def no_vars_def split: if_splits option.splits)

lemma decide_check_in:
  assumes "decide cfg timetable st now = Inr (Continue v st')"
    and "notification_title v = Some (''Check-in: '' @ name)"
  shows "instant now - instant (last_in_task_notification_time st)
           \<ge> notification_interval_seconds cfg * us_per_second
         \<and> st' = st\<lparr>last_in_task_notification_time := now\<rparr>"
  using assms
  by (auto simp: decide_def split: if_splits sum.splits prod.splits dest: policy_check_in)

text \<open>
  C3. When the function decides on a check-in (the title \<open>Check-in: <task>\<close> with a
  prompt), the time since the last in-task notification is at least the notification
  interval, and the decision sets \<open>last_in_task_notification_time\<close> to now; so a call on
  the state it leaves, at an instant less than the interval after it, decides on no
  check-in, whatever the task.
\<close>

theorem check_in_throttle:
  assumes "decide cfg timetable st now = Inr (Continue v st')"
    and "notification_title v = Some (''Check-in: '' @ name)"
  shows "instant now - instant (last_in_task_notification_time st)
           \<ge> notification_interval_seconds cfg * us_per_second
     \<and> last_in_task_notification_time st' = now
     \<and> (\<forall>now' v' st'' name'.
           instant now' - instant now < notification_interval_seconds cfg * us_per_second
           \<and> decide cfg timetable st' now' = Inr (Continue v' st'')
           \<longrightarrow> notification_title v' \<noteq> Some (''Check-in: '' @ name'))"
proof -
  from decide_check_in [OF assms]
  have g: "instant now - instant (last_in_task_notification_time st)
             \<ge> notification_interval_seconds cfg * us_per_second"
    and s: "st' = st\<lparr>last_in_task_notification_time := now\<rparr>"
    by simp_all
  have l: "last_in_task_notification_time st' = now" using s by simp
  have "notification_title v' \<noteq> Some (''Check-in: '' @ name')"
    if a: "instant now' - instant now < notification_interval_seconds cfg * us_per_second"
      and b: "decide cfg timetable st' now' = Inr (Continue v' st'')"
    for now' v' st'' name'
  proof
    assume "notification_title v' = Some (''Check-in: '' @ name')"
    from decide_check_in [OF b this] l a show False by simp
  qed
  with g l show ?thesis by blast
qed

theorem check_in_throttle_witness:
  "decide utc_config scenario_timetable (initial_state utc_config) (at_time 0 20000 8 50 0)
     = Inr (Continue
         \<lparr>prompt = Some (check_in_prompt ''Wake'' []),
          notification_title = Some (''Check-in: '' @ ''Wake''), notification_message = None\<rparr>
         \<lparr>last_in_task_notification_time = at_time 0 20000 8 50 0,
          sleep_notification_count = 0\<rparr>)
   \<and> instant (at_time 0 20000 8 50 0)
        - instant (last_in_task_notification_time (initial_state utc_config))
        \<ge> notification_interval_seconds utc_config * us_per_second
   \<and> instant (at_time 0 20000 8 55 0) - instant (at_time 0 20000 8 50 0)
        < notification_interval_seconds utc_config * us_per_second
   \<and> decide utc_config scenario_timetable
        \<lparr>last_in_task_notification_time = at_time 0 20000 8 50 0,
         sleep_notification_count = 0\<rparr>
        (at_time 0 20000 8 55 0)
     = Inr (Continue no_vars
         \<lparr>last_in_task_notification_time = at_time 0 20000 8 50 0,
          sleep_notification_count = 0\<rparr>)
   \<and> notification_title no_vars \<noteq> Some (''Check-in: '' @ ''Wake'')"
proof -
  have a: "decide utc_config scenario_timetable (initial_state utc_config)
       (at_time 0 20000 8 50 0)
     = Inr (Continue
         \<lparr>prompt = Some (check_in_prompt ''Wake'' []),
          notification_title = Some (''Check-in: '' @ ''Wake''), notification_message = None\<rparr>
         \<lparr>last_in_task_notification_time = at_time 0 20000 8 50 0,
          sleep_notification_count = 0\<rparr>)"
    by code_simp
  have b: "notification_title
         \<lparr>prompt = Some (check_in_prompt ''Wake'' []),
          notification_title = Some (''Check-in: '' @ ''Wake''), notification_message = None\<rparr>
       = Some (''Check-in: '' @ ''Wake'')"
    by simp
  have c: "instant (at_time 0 20000 8 55 0) - instant (at_time 0 20000 8 50 0)
        < notification_interval_seconds utc_config * us_per_second"
    by code_simp
  have d: "decide utc_config scenario_timetable
        \<lparr>last_in_task_notification_time = at_time 0 20000 8 50 0,
         sleep_notification_count = 0\<rparr>
        (at_time 0 20000 8 55 0)
     = Inr (Continue no_vars
         \<lparr>last_in_task_notification_time = at_time 0 20000 8 50 0,
          sleep_notification_count = 0\<rparr>)"
    by code_simp
  from check_in_throttle [OF a b] a c d show ?thesis
    by blast
qed

lemma policy_return:
  assumes "policy cfg a sc dt st now = Return ns st'"
  shows "(ns = [] \<and> st' = st)
       \<or> (ns = [(sleep_title, JStr sleep_message)]
          \<and> sleep_notification_count st' = sleep_notification_count st + 1
          \<and> sleep_notification_count st < max_sleep_notifications cfg)"
  using assms
  by (auto simp: policy_def Let_def split: if_splits option.splits)

lemma policy_continue:
  assumes "policy cfg a sc dt st now = Continue v st'"
  shows "opt_str (notification_title v) \<noteq> sleep_title
       \<and> sleep_notification_count st' = sleep_notification_count st"
  using assms
  by (auto simp: policy_def Let_def no_vars_def opt_str_def sleep_title_def
      split: if_splits option.splits)

lemma dispatch_titles:
  assumes "dispatch api_key tr up name v = (ns, err)"
  shows "\<forall>n\<in>set ns. fst n = opt_str (notification_title v)"
  using assms
  by (auto simp: dispatch_def Let_def split: if_splits sum.splits option.splits)

lemma sleep_notifications_dispatch:
  assumes "dispatch api_key tr up name v = (ns, err)"
    and "opt_str (notification_title v) \<noteq> sleep_title"
  shows "sleep_notifications ns = 0"
  using dispatch_titles [OF assms(1)] assms(2)
  by (auto simp: sleep_notifications_def filter_empty_conv)

lemma get_smart_notification_sleep:
  fixes out :: outcome
  assumes "out = get_smart_notification cfg api_key tr timetable st now"
  shows "sleep_notification_count (state_after out)
           = sleep_notification_count st + int (sleep_notifications (sent out))
       \<and> sleep_notifications (sent out) \<le> 1
       \<and> (sleep_notifications (sent out) = 1
            \<longrightarrow> sleep_notification_count st < max_sleep_notifications cfg)"
proof (cases "timetable = []")
  case True
  with assms show ?thesis
    by (simp add: get_smart_notification_def sleep_notifications_def)
next
  case False
  show ?thesis
  proof (cases "scans cfg timetable now")
    case (Inl e)
    with False assms show ?thesis
      by (simp add: get_smart_notification_def sleep_notifications_def)
  next
    case (Inr triple)
    obtain a sc dt where triple: "triple = (a, sc, dt)" by (cases triple)
    show ?thesis
    proof (cases "policy cfg a sc dt st now")
      case (Return ns st')
      from policy_return [OF Return] False assms Inr triple Return show ?thesis
        by (auto simp: get_smart_notification_def sleep_notifications_def)
    next
      case (Continue v st')
      obtain ns err where d: "dispatch api_key tr (upcoming_task_entry sc) (name_of a) v = (ns, err)"
        by (cases "dispatch api_key tr (upcoming_task_entry sc) (name_of a) v")
      from policy_continue [OF Continue] sleep_notifications_dispatch [OF d]
      have "sleep_notifications ns = 0"
        and "sleep_notification_count st' = sleep_notification_count st"
        by simp_all
      with False assms Inr triple Continue d show ?thesis
        by (simp add: get_smart_notification_def)
    qed
  qed
qed

lemma sleep_notifications_append:
  "sleep_notifications (xs @ ys) = sleep_notifications xs + sleep_notifications ys"
  by (simp add: sleep_notifications_def)

lemma run_sleep:
  "sleep_notification_count (snd (run cfg api_key timetable st ticks))
     = sleep_notification_count st
       + int (sleep_notifications (fst (run cfg api_key timetable st ticks)))
   \<and> (sleep_notifications (fst (run cfg api_key timetable st ticks)) > 0
        \<longrightarrow> sleep_notification_count (snd (run cfg api_key timetable st ticks))
              \<le> max_sleep_notifications cfg)"
proof (induction ticks arbitrary: st)
  case Nil
  then show ?case by (simp add: sleep_notifications_def)
next
  case (Cons tick ticks)
  define out where "out = get_smart_notification cfg api_key (snd tick) timetable st (fst tick)"
  note step = get_smart_notification_sleep [OF out_def]
  note ih = Cons.IH [of "state_after out"]
  have r: "run cfg api_key timetable st (tick # ticks)
      = (sent out @ fst (run cfg api_key timetable (state_after out) ticks),
         snd (run cfg api_key timetable (state_after out) ticks))"
    by (simp add: out_def Let_def)
  show ?case
    using step ih unfolding r
    by (auto simp: sleep_notifications_append)
qed

text \<open>
  C2. Over any sequence of calls from the initial state (of whatever zone the process
  started with), at any instants and with any transport behaviour, the notifications
  titled \<open>Current Task: Sleep\<close> number at most \<open>max_sleep_notifications\<close>, and the
  counter at the end is exactly their number: each one adds 1 to it and nothing else
  changes it.
\<close>

theorem sleep_notifications_bounded:
  "sleep_notifications (fst (run cfg api_key timetable (initial_state cfg0) ticks))
     \<le> nat (max_sleep_notifications cfg)
   \<and> sleep_notification_count (snd (run cfg api_key timetable (initial_state cfg0) ticks))
     = int (sleep_notifications (fst (run cfg api_key timetable (initial_state cfg0) ticks)))"
  using run_sleep [of cfg api_key timetable "initial_state cfg0" ticks]
  by (auto simp: initial_state_def)

theorem sleep_notifications_bounded_witness:
  "sleep_notifications (fst (run utc_config None
       [plain_entry ''22:00'' ''Sleep'', plain_entry ''23:00'' ''Read'']
       (initial_state utc_config) sleep_ticks))
     = 2
   \<and> sleep_notification_count (snd (run utc_config None
       [plain_entry ''22:00'' ''Sleep'', plain_entry ''23:00'' ''Read'']
       (initial_state utc_config) sleep_ticks))
     = 2
   \<and> nat (max_sleep_notifications utc_config) = 2"
proof -
  have a: "sleep_notifications (fst (run utc_config None
       [plain_entry ''22:00'' ''Sleep'', plain_entry ''23:00'' ''Read'']
       (initial_state utc_config) sleep_ticks))
     = 2"
    by code_simp
  have b: "nat (max_sleep_notifications utc_config) = 2"
    by code_simp
  from sleep_notifications_bounded [of utc_config None
      "[plain_entry ''22:00'' ''Sleep'', plain_entry ''23:00'' ''Read'']" utc_config sleep_ticks]
    a b
  show ?thesis by simp
qed

section \<open>The end-to-end scenario and the upcoming-task branch\<close>

lemma strptime_scenario:
  "strptime ''08:00'' = Some (8, 0)" "strptime ''09:00'' = Some (9, 0)"
  "strptime ''13:00'' = Some (13, 0)"
  by code_simp+

lemma sorted_scenario: "sorted_timetable scenario_timetable = scenario_timetable"
  by code_simp

lemma lower_wake: "lower ''Wake'' = ''wake''"
  by code_simp

lemma load_scenario: "load_timetable scenario_items = Inr scenario_timetable"
  by code_simp

lemma date_of_wall:
  assumes "wall now = d * 86400000000 + x" and "0 \<le> x" and "x < 86400000000"
  shows "date_of now = d"
proof -
  have "(x + d * 86400000000) div 86400000000 = d"
    using assms(2,3) by (simp add: div_pos_pos_trivial)
  then show ?thesis
    by (simp add: date_of_def us_per_day_def assms(1) add.commute)
qed

text \<open>
  C8, as stated, fails: in the scenario at 08:50 an entry is active, the \<open>if\<close> of line
  318 is taken, and with the epoch as the last check-in time the decision is the
  check-in for the active entry. The \<open>elif\<close> of line 340, where the title
  \<open>Upcoming: Work\<close> is set, is not evaluated. With the zone UTC the active entry is Wake
  (08:00, no duration, so until the start of Work at 09:00); with the default zone
  it is Work.
\<close>

theorem scenario_counterexample:
  "load_timetable scenario_items = Inr scenario_timetable
   \<and> decide utc_config scenario_timetable (initial_state utc_config) (at_time 0 20000 8 50 0)
     = Inr (Continue
         \<lparr>prompt = Some (check_in_prompt ''Wake'' []),
          notification_title = Some ''Check-in: Wake'', notification_message = None\<rparr>
         \<lparr>last_in_task_notification_time = at_time 0 20000 8 50 0,
          sleep_notification_count = 0\<rparr>)
   \<and> ''Check-in: Wake'' \<noteq> ''Upcoming: Work''
   \<and> decide default_config scenario_timetable (initial_state default_config)
        (at_time 330 20000 8 50 0)
     = Inr (Continue
         \<lparr>prompt = Some (check_in_prompt ''Work'' []),
          notification_title = Some ''Check-in: Work'', notification_message = None\<rparr>
         \<lparr>last_in_task_notification_time = at_time 330 20000 8 50 0,
          sleep_notification_count = 0\<rparr>)
   \<and> ''Check-in: Work'' \<noteq> ''Upcoming: Work''"
  by code_simp

text \<open>
  C8, amended. For the timetable of the scenario as \<open>load_timetable\<close> reads it, with the
  configuration values at their defaults and a zone in which the entry times carry the
  UTC offset of now (\<open>z\<close> minutes for both, as with UTC), at 08:50 of any day from the
  epoch on and from the initial state, one evaluation yields a compose decision with the
  title \<open>Check-in: Wake\<close>, and sets the last check-in time to now.
\<close>

theorem scenario_check_in:
  assumes "load_timetable scenario_items = Inr timetable" and "0 \<le> d"
    and "cfg = default_config\<lparr>timezone_offset_minutes := z\<rparr>"
  shows "decide cfg timetable (initial_state cfg) (at_time z d 8 50 0)
     = Inr (Continue
         \<lparr>prompt = Some (check_in_prompt ''Wake'' []),
          notification_title = Some ''Check-in: Wake'', notification_message = None\<rparr>
         \<lparr>last_in_task_notification_time = at_time z d 8 50 0, sleep_notification_count = 0\<rparr>)"
proof -
  define now where "now = at_time z d 8 50 0"
  have tt: "timetable = scenario_timetable" using assms(1) load_scenario by simp
  have w: "wall now = d * 86400000000 + 31800000000"
    and off: "utcoffset now = z * 60000000"
    by (simp_all add: now_def at_time_def us_per_day_def us_per_second_def minutes_def
        us_per_minute_def)
  have dt: "date_of now = d" using w by (rule date_of_wall) simp_all
  have tz: "tz_of cfg = z * 60000000"
    by (simp add: assms(3) tz_of_def minutes_def us_per_minute_def)
  have act: "get_current_active_timetable_entry (tz_of cfg) scenario_timetable now
      = Inr (Some (plain_entry ''08:00'' ''Wake''))"
    by (simp add: get_current_active_timetable_entry_def sorted_scenario)
       (simp add: scenario_timetable_def plain_entry_def timed_entry_def strptime_scenario
         window_end_def dt tz combine_def instant_def w off us_per_day_def us_per_minute_def)
  have sd: "(600000000::int) sdiv 60000000 = 10"
    by (simp add: signed_divide_int_def)
  have up: "upcoming_loop cfg now scenario_timetable None
      = Inr \<lparr>upcoming_task_entry = Some (timed_entry ''09:00'' ''Work'' 240),
             time_until_upcoming_task_minutes = 10,
             is_upcoming_task_just_started = False,
             task_dt_local = Some (combine d (9, 0) (tz_of cfg))\<rparr>"
    by (simp add: scenario_timetable_def plain_entry_def timed_entry_def strptime_scenario
         assms(3) default_config_def minutes_def dt tz_of_def combine_def instant_def w off
         us_per_day_def us_per_minute_def us_per_second_def sd)
  have ne: "scenario_timetable \<noteq> []" by (simp add: scenario_timetable_def)
  have "decide cfg scenario_timetable (initial_state cfg) now
     = Inr (Continue
         \<lparr>prompt = Some (check_in_prompt ''Wake'' []),
          notification_title = Some ''Check-in: Wake'', notification_message = None\<rparr>
         \<lparr>last_in_task_notification_time = now, sleep_notification_count = 0\<rparr>)"
    using assms(2)
    by (simp add: decide_def ne scans_def act up sorted_scenario)
       (simp add: policy_def Let_def plain_entry_def lower_wake assms(3) default_config_def
         initial_state_def tz_of_def minutes_def us_per_minute_def instant_def w off
         us_per_second_def)
  then show ?thesis by (simp add: tt now_def)
qed

theorem scenario_check_in_witness:
  "load_timetable scenario_items = Inr scenario_timetable
   \<and> utc_config = default_config\<lparr>timezone_offset_minutes := 0\<rparr>
   \<and> decide utc_config scenario_timetable (initial_state utc_config) (at_time 0 19000 8 50 0)
     = Inr (Continue
         \<lparr>prompt = Some (check_in_prompt ''Wake'' []),
          notification_title = Some ''Check-in: Wake'', notification_message = None\<rparr>
         \<lparr>last_in_task_notification_time = at_time 0 19000 8 50 0,
          sleep_notification_count = 0\<rparr>)"
proof -
  have a: "load_timetable scenario_items = Inr scenario_timetable"
    by code_simp
  have b: "(0::int) \<le> 19000" by simp
  have c: "utc_config = default_config\<lparr>timezone_offset_minutes := 0\<rparr>"
    by (simp add: utc_config_def)
  from scenario_check_in [OF a b c] a c show ?thesis
    by simp
qed

lemma upcoming_loop_found:
  assumes "upcoming_loop cfg now xs dt0 = Inr sc" and "upcoming_task_entry sc = Some e"
  shows "\<exists>t. strptime (time e) = Some t
           \<and> task_dt_local sc = Some (combine (date_of now) t (tz_of cfg))
           \<and> is_upcoming_task_just_started sc
               = (instant now \<ge> instant (combine (date_of now) t (tz_of cfg))
                  \<and> instant now - instant (combine (date_of now) t (tz_of cfg))
                       \<le> grace_minutes_after_start cfg * 60 * us_per_second)"
  using assms
proof (induction xs arbitrary: dt0)
  case Nil
  then show ?case by auto
next
  case (Cons x xs)
  then show ?case
    by (auto simp: Let_def split: option.splits if_splits)
qed

lemma policy_upcoming:
  assumes "upcoming_task_entry sc = Some e"
  shows "upcoming_fired e (Inr (policy cfg None sc task_dt st now))
     = ((0 \<le> instant task_dt - instant now
         \<and> instant task_dt - instant now \<le> minutes (minutes_before_task cfg))
        \<or> is_upcoming_task_just_started sc)"
  using assms
  by (simp add: policy_def Let_def no_vars_def)

text \<open>
  C6, as stated, fails: with Wake at 08:00 and Work at 09:00, when Work starts exactly
  15 minutes after now and a check-in was made 15 minutes before now, Wake is active and
  no check-in is due, so no active branch fires; Work is the upcoming entry, and yet
  nothing is sent: the upcoming branch is the \<open>elif\<close> of the test for an active entry.
  With the zone UTC this is at 08:45; with the default zone, at 08:22.
\<close>

theorem upcoming_blocked_counterexample:
  "scans utc_config [plain_entry ''08:00'' ''Wake'', plain_entry ''09:00'' ''Work'']
       (at_time 0 20000 8 45 0)
     = Inr (Some (plain_entry ''08:00'' ''Wake''),
            \<lparr>upcoming_task_entry = Some (plain_entry ''09:00'' ''Work''),
             time_until_upcoming_task_minutes = 15,
             is_upcoming_task_just_started = False,
             task_dt_local = Some (at_time 0 20000 9 0 0)\<rparr>,
            at_time 0 20000 9 0 0)
   \<and> get_smart_notification utc_config None refusing
       [plain_entry ''08:00'' ''Wake'', plain_entry ''09:00'' ''Work'']
       \<lparr>last_in_task_notification_time = at_time 0 20000 8 30 0, sleep_notification_count = 0\<rparr>
       (at_time 0 20000 8 45 0)
     = \<lparr>sent = [],
        state_after = \<lparr>last_in_task_notification_time = at_time 0 20000 8 30 0,
                        sleep_notification_count = 0\<rparr>,
        raised = None\<rparr>
   \<and> scans default_config [plain_entry ''08:00'' ''Wake'', plain_entry ''09:00'' ''Work'']
       (at_time 330 20000 8 22 0)
     = Inr (Some (plain_entry ''08:00'' ''Wake''),
            \<lparr>upcoming_task_entry = Some (plain_entry ''09:00'' ''Work''),
             time_until_upcoming_task_minutes = 15,
             is_upcoming_task_just_started = False,
             task_dt_local = Some (at_time 353 20000 9 0 0)\<rparr>,
            at_time 353 20000 9 0 0)
   \<and> get_smart_notification default_config None refusing
       [plain_entry ''08:00'' ''Wake'', plain_entry ''09:00'' ''Work'']
       \<lparr>last_in_task_notification_time = at_time 330 20000 8 7 0, sleep_notification_count = 0\<rparr>
       (at_time 330 20000 8 22 0)
     = \<lparr>sent = [],
        state_after = \<lparr>last_in_task_notification_time = at_time 330 20000 8 7 0,
                        sleep_notification_count = 0\<rparr>,
        raised = None\<rparr>"
  by code_simp

text \<open>
  C6, amended. With \<open>minutes_before_task = 15\<close>, when no entry is active at now and the
  upcoming entry is one of 09:00, whose start the code computes as \<open>start\<close>, the
  upcoming-task branch fires (the title is \<open>Upcoming: <task>\<close> or \<open>Time for Bed!\<close>)
  when the start is at most 15 minutes after now, 15 minutes exactly included, and does
  not fire when it is more than 15 minutes after now. Where the entry times carry the
  UTC offset of now, as with UTC, that is: it fires from 08:45 on and not at 08:44.
  Nothing is said of the instants after the start.
\<close>

theorem upcoming_window:
  assumes "minutes_before_task cfg = 15"
    and "get_current_active_timetable_entry (tz_of cfg) timetable now = Inr None"
    and "upcoming_loop cfg now (sorted_timetable timetable) None = Inr sc"
    and "upcoming_task_entry sc = Some e"
    and "strptime (time e) = Some (9, 0)"
    and "start = combine (date_of now) (9, 0) (tz_of cfg)"
  shows "(0 \<le> instant start - instant now \<and> instant start - instant now \<le> minutes 15
            \<longrightarrow> upcoming_fired e (decide cfg timetable st now))
       \<and> (minutes 15 < instant start - instant now
            \<longrightarrow> \<not> upcoming_fired e (decide cfg timetable st now))"
proof -
  from upcoming_loop_found [OF assms(3,4)] assms(5,6)
  have dt: "task_dt_local sc = Some start"
    and js: "is_upcoming_task_just_started sc
       = (instant now \<ge> instant start
          \<and> instant now - instant start
               \<le> grace_minutes_after_start cfg * 60 * us_per_second)"
    by auto
  have ne: "timetable \<noteq> []"
    using assms(3,4) by (auto simp: sorted_timetable_def)
  have d: "decide cfg timetable st now = Inr (policy cfg None sc start st now)"
    by (simp add: decide_def ne scans_def assms(2,3) dt)
  show ?thesis
    unfolding d policy_upcoming [OF assms(4)] js assms(1)
    by (auto simp: minutes_def us_per_minute_def)
qed

theorem upcoming_window_witness:
  "minutes_before_task utc_config = 15
   \<and> get_current_active_timetable_entry (tz_of utc_config) [plain_entry ''09:00'' ''Work'']
       (at_time 0 20000 8 45 0) = Inr None
   \<and> get_current_active_timetable_entry (tz_of utc_config) [plain_entry ''09:00'' ''Work'']
       (at_time 0 20000 8 44 0) = Inr None
   \<and> strptime (time (plain_entry ''09:00'' ''Work'')) = Some (9, 0)
   \<and> instant (at_time 0 20000 9 0 0) - instant (at_time 0 20000 8 45 0) = minutes 15
   \<and> instant (at_time 0 20000 9 0 0) - instant (at_time 0 20000 8 44 0) = minutes 16
   \<and> upcoming_fired (plain_entry ''09:00'' ''Work'')
        (decide utc_config [plain_entry ''09:00'' ''Work''] (initial_state utc_config)
           (at_time 0 20000 8 45 0))
   \<and> \<not> upcoming_fired (plain_entry ''09:00'' ''Work'')
        (decide utc_config [plain_entry ''09:00'' ''Work''] (initial_state utc_config)
           (at_time 0 20000 8 44 0))"
proof -
  have a: "minutes_before_task utc_config = 15"
    by code_simp
  have b: "get_current_active_timetable_entry (tz_of utc_config) [plain_entry ''09:00'' ''Work'']
      (at_time 0 20000 8 45 0) = Inr None"
    by code_simp
  have b': "get_current_active_timetable_entry (tz_of utc_config) [plain_entry ''09:00'' ''Work'']
      (at_time 0 20000 8 44 0) = Inr None"
    by code_simp
  have c: "upcoming_loop utc_config (at_time 0 20000 8 45 0)
      (sorted_timetable [plain_entry ''09:00'' ''Work'']) None
    = Inr \<lparr>upcoming_task_entry = Some (plain_entry ''09:00'' ''Work''),
           time_until_upcoming_task_minutes = 15,
           is_upcoming_task_just_started = False,
           task_dt_local = Some (at_time 0 20000 9 0 0)\<rparr>"
    by code_simp
  have c': "upcoming_loop utc_config (at_time 0 20000 8 44 0)
      (sorted_timetable [plain_entry ''09:00'' ''Work'']) None
    = Inr \<lparr>upcoming_task_entry = Some (plain_entry ''09:00'' ''Work''),
           time_until_upcoming_task_minutes = 16,
           is_upcoming_task_just_started = False,
           task_dt_local = Some (at_time 0 20000 9 0 0)\<rparr>"
    by code_simp
  have d: "upcoming_task_entry
      \<lparr>upcoming_task_entry = Some (plain_entry ''09:00'' ''Work''),
       time_until_upcoming_task_minutes = n,
       is_upcoming_task_just_started = False,
       task_dt_local = Some (at_time 0 20000 9 0 0)\<rparr>
    = Some (plain_entry ''09:00'' ''Work'')" for n
    by simp
  have e: "strptime (time (plain_entry ''09:00'' ''Work'')) = Some (9, 0)"
    by code_simp
  have f: "at_time 0 20000 9 0 0 = combine (date_of (at_time 0 20000 8 45 0)) (9, 0) (tz_of utc_config)"
    by code_simp
  have f': "at_time 0 20000 9 0 0 = combine (date_of (at_time 0 20000 8 44 0)) (9, 0) (tz_of utc_config)"
    by code_simp
  have g: "instant (at_time 0 20000 9 0 0) - instant (at_time 0 20000 8 45 0) = minutes 15"
    by code_simp
  have g': "instant (at_time 0 20000 9 0 0) - instant (at_time 0 20000 8 44 0) = minutes 16"
    by code_simp
  have h: "0 \<le> minutes 15" "minutes 15 < minutes 16"
    by (simp_all add: minutes_def us_per_minute_def)
  from upcoming_window [OF a b c d e f, of "initial_state utc_config"]
    upcoming_window [OF a b' c' d e f', of "initial_state utc_config"]
    a b b' e g g' h
  show ?thesis
    by simp
qed

end
